theory Spec2Isabelle
  imports Main "HOL-Library.AList"
begin

section \<open>Shopping Cart Settings: data model\<close>

text \<open>
  A shallow embedding of \<^verbatim>\<open>shopping_cart_settings.py\<close>. Territories, rule
  references (names of price lists, tax masters, shipping rules), currencies and field
  names are strings. A Python dict is an association list in iteration order, read with
  \<open>map_of\<close> and written with \<open>AList.update\<close> (an existing key keeps its place, a new
  key goes to the end). The source runs on dicts whose iteration order is arbitrary;
  the theorems about the specification are stated so that they do not say which entry an
  iteration meets first.
\<close>

type_synonym 'v dict = "(string \<times> 'v) list"

text \<open>
  Every exception the controller raises is a \<^verbatim>\<open>ShoppingCartSetupError\<close> (or a
  \<^verbatim>\<open>ValidationError\<close>) told apart by its message; the constructors carry what the
  message names. \<open>ValueError\<close> is what \<^verbatim>\<open>names.index(val)\<close> raises for a value that is
  not in the list. The missing exchange rates come from \<^verbatim>\<open>list(set(...))\<close>, whose
  order the source does not fix, so they are carried as a set.
\<close>

datatype error =
    EmptyTableError string
  | OverlapError string "string list" string
  | CoverageError string
  | MissingCompanyCurrencyError string
  | MissingPriceListCurrencyError string
  | MissingExchangeRatesError "string set"
  | ValueError

text \<open>
  The settings document (\<^verbatim>\<open>self\<close>). Each child table is the list of the link field
  of its rows, in table order. \<open>territory_ancestry\<close> is the attribute
  \<^verbatim>\<open>_territory_ancestry\<close>: \<open>None\<close> while the attribute does not exist.
\<close>

record settings =
  enabled :: bool
  default_territory :: string
  company :: string
  price_lists :: "string list"
  sales_taxes_and_charges_masters :: "string list"
  shipping_rules :: "string list"
  territory_ancestry :: "string list dict option"

text \<open>
  The collaborators the controller calls, which are not part of this module:
  \<^item> \<open>table_options parentfield\<close> is \<^verbatim>\<open>self.meta.get_field(parentfield).options\<close>;
  \<^item> \<open>link_options fieldname parentfield\<close> is
    \<^verbatim>\<open>self.meta.get_field(fieldname, parentfield=parentfield).options\<close>;
  \<^item> \<open>applicable_territory\<close> holds the rows of \<^verbatim>\<open>tabApplicable Territory\<close> as
    (territory, parent, parenttype), in the order the database returns them;
  \<^item> \<open>get_ancestors_of\<close> is \<^verbatim>\<open>frappe.utils.nestedset.get_ancestors_of("Territory", _)\<close>;
  \<^item> \<open>company_default_currency c\<close> is
    \<^verbatim>\<open>frappe.db.get_value("Company", c, "default_currency")\<close>;
  \<^item> \<open>price_list_currency names\<close> is the dict
    \<^verbatim>\<open>frappe.db.get_values("Price List", names, "currency")\<close>, as its items;
  \<^item> \<open>currency_exchange\<close> holds the names of the rows of \<^verbatim>\<open>tabCurrency Exchange\<close>.
\<close>

record frappe =
  table_options :: "string \<Rightarrow> string"
  link_options :: "string \<Rightarrow> string \<Rightarrow> string"
  applicable_territory :: "(string \<times> string \<times> string) list"
  get_ancestors_of :: "string \<Rightarrow> string list"
  company_default_currency :: "string \<Rightarrow> string option"
  price_list_currency :: "string list \<Rightarrow> string option dict"
  currency_exchange :: "string list"

section \<open>Helpers of the embedding\<close>

text \<open>\<^verbatim>\<open>self.get(parentfield)\<close>, each row read at its link field.\<close>

definition get_table :: "settings \<Rightarrow> string \<Rightarrow> string list" where
  "get_table self parentfield =
     (if parentfield = ''price_lists'' then price_lists self
      else if parentfield = ''sales_taxes_and_charges_masters''
        then sales_taxes_and_charges_masters self
      else if parentfield = ''shipping_rules'' then shipping_rules self
      else [])"

text \<open>\<^verbatim>\<open>names.index(val)\<close>: the first position of \<open>val\<close>, \<open>None\<close> for the ValueError.\<close>

fun index_py :: "string list \<Rightarrow> string \<Rightarrow> nat option" where
  "index_py [] val = None"
| "index_py (x # xs) val =
     (if x = val then Some 0 else map_option Suc (index_py xs val))"

text \<open>
  \<^verbatim>\<open>xs.sort(key=lambda val: names.index(val))\<close>: the keys are computed first (any
  failure raises), then the list is sorted stably by key.
\<close>

definition sort_by_index :: "string list \<Rightarrow> string list \<Rightarrow> error + string list" where
  "sort_by_index names xs =
     (case those (map (index_py names) xs) of
        None \<Rightarrow> Inl ValueError
      | Some ks \<Rightarrow> Inr (map snd (sort_key fst (zip ks xs))))"

text \<open>Python truthiness of a value that is \<^verbatim>\<open>None\<close> or a list, and of one that is
  \<^verbatim>\<open>None\<close> or a string.\<close>

fun truthy_list :: "'a list option \<Rightarrow> bool" where
  "truthy_list None = False"
| "truthy_list (Some []) = False"
| "truthy_list (Some (x # xs)) = True"

fun truthy_str :: "string option \<Rightarrow> bool" where
  "truthy_str None = False"
| "truthy_str (Some []) = False"
| "truthy_str (Some (c # cs)) = True"

section \<open>The controller\<close>

subsection \<open>get_territory_name_map\<close>

text \<open>The rows the SQL query returns: those of the given parenttype whose parent is one
  of \<open>names\<close>, as (territory, parent). \<^verbatim>\<open>in\<close> is equality of strings here; the
  collation of the database is not modelled.\<close>

definition territory_name :: "frappe \<Rightarrow> string \<Rightarrow> string list \<Rightarrow> (string \<times> string) list" where
  "territory_name fr parenttype names =
     map (\<lambda>(territory, parent, pt). (territory, parent))
       (filter (\<lambda>(territory, parent, pt). pt = parenttype \<and> parent \<in> set names)
          (applicable_territory fr))"

text \<open>One round of the loop: append the name to the territory's list, and sort the list
  by position in \<open>names\<close> once it has more than one element.\<close>

definition append_name ::
  "string list \<Rightarrow> string list dict \<Rightarrow> string \<Rightarrow> string \<Rightarrow> error + string list dict" where
  "append_name names territory_name_map territory name =
     (let xs = (case map_of territory_name_map territory of None \<Rightarrow> [] | Some ys \<Rightarrow> ys)
                 @ [name]
      in if length xs > 1 then
           (case sort_by_index names xs of
              Inl e \<Rightarrow> Inl e
            | Inr xs' \<Rightarrow> Inr (AList.update territory xs' territory_name_map))
         else Inr (AList.update territory xs territory_name_map))"

fun build_map ::
  "string list \<Rightarrow> (string \<times> string) list \<Rightarrow> string list dict \<Rightarrow> error + string list dict" where
  "build_map names [] territory_name_map = Inr territory_name_map"
| "build_map names ((territory, name) # rest) territory_name_map =
     (case append_name names territory_name_map territory name of
        Inl e \<Rightarrow> Inl e
      | Inr m \<Rightarrow> build_map names rest m)"

definition get_territory_name_map ::
  "frappe \<Rightarrow> settings \<Rightarrow> string \<Rightarrow> string \<Rightarrow> error + string list dict" where
  "get_territory_name_map fr self parentfield fieldname =
     (let names = get_table self parentfield in
      if names = [] then Inr []
      else build_map names
             (territory_name fr (link_options fr fieldname parentfield) names) [])"

subsection \<open>validate_overlapping_territories\<close>

text \<open>\<^verbatim>\<open>validate_table_has_rows\<close> is a method of the framework's controller class: it
  raises the given exception when the child table has no row.\<close>

definition validate_table_has_rows :: "settings \<Rightarrow> string \<Rightarrow> error + unit" where
  "validate_table_has_rows self parentfield =
     (if get_table self parentfield = [] then Inl (EmptyTableError parentfield)
      else Inr ())"

fun check_names :: "string \<Rightarrow> string list dict \<Rightarrow> error + unit" where
  "check_names doctype [] = Inr ()"
| "check_names doctype ((territory, names) # rest) =
     (if length names > 1 then Inl (OverlapError doctype names territory)
      else check_names doctype rest)"

definition validate_overlapping_territories ::
  "frappe \<Rightarrow> settings \<Rightarrow> string \<Rightarrow> string \<Rightarrow> error + string list dict" where
  "validate_overlapping_territories fr self parentfield fieldname =
     (let doctype = table_options fr parentfield in
      case validate_table_has_rows self parentfield of
        Inl e \<Rightarrow> Inl e
      | Inr u \<Rightarrow>
          (case get_territory_name_map fr self parentfield fieldname of
             Inl e \<Rightarrow> Inl e
           | Inr territory_name_map \<Rightarrow>
               (case check_names doctype territory_name_map of
                  Inl e \<Rightarrow> Inl e
                | Inr u' \<Rightarrow> Inr territory_name_map)))"

subsection \<open>get_territory_ancestry and get_name_from_territory\<close>

text \<open>The cache is consulted with \<^verbatim>\<open>not self._territory_ancestry.get(territory)\<close>, so
  a territory that is not in it and one cached with an empty chain are both fetched
  from the tree.\<close>

definition get_territory_ancestry ::
  "frappe \<Rightarrow> settings \<Rightarrow> string \<Rightarrow> string list \<times> settings" where
  "get_territory_ancestry fr self territory =
     (let cache = (case territory_ancestry self of None \<Rightarrow> [] | Some c \<Rightarrow> c) in
      case map_of cache territory of
        Some (a # chain) \<Rightarrow> (a # chain, self\<lparr>territory_ancestry := Some cache\<rparr>)
      | _ \<Rightarrow>
          (let chain = get_ancestors_of fr territory in
           (chain, self\<lparr>territory_ancestry := Some (AList.update territory chain cache)\<rparr>)))"

fun ancestor_loop :: "string list dict \<Rightarrow> string list \<Rightarrow> string list option" where
  "ancestor_loop territory_name_map [] = None"
| "ancestor_loop territory_name_map (ancestor # rest) =
     (if truthy_list (map_of territory_name_map ancestor)
      then map_of territory_name_map ancestor
      else ancestor_loop territory_name_map rest)"

definition get_name_from_territory ::
  "frappe \<Rightarrow> settings \<Rightarrow> string \<Rightarrow> string \<Rightarrow> string
     \<Rightarrow> error + (string list option \<times> settings)" where
  "get_name_from_territory fr self territory parentfield fieldname =
     (case get_territory_name_map fr self parentfield fieldname of
        Inl e \<Rightarrow> Inl e
      | Inr territory_name_map \<Rightarrow>
          if truthy_list (map_of territory_name_map territory)
          then Inr (map_of territory_name_map territory, self)
          else
            (case get_territory_ancestry fr self territory of
               (ancestry, self') \<Rightarrow>
                 Inr (ancestor_loop territory_name_map ancestry, self')))"

subsection \<open>The category wrappers\<close>

text \<open>\<^verbatim>\<open>x and x[0] or None\<close> for \<open>x\<close> that is \<^verbatim>\<open>None\<close> or a list of strings.\<close>

fun first_or_none :: "string list option \<Rightarrow> string option" where
  "first_or_none None = None"
| "first_or_none (Some []) = None"
| "first_or_none (Some (x # xs)) = (if truthy_str (Some x) then Some x else None)"

definition get_price_list ::
  "frappe \<Rightarrow> settings \<Rightarrow> string \<Rightarrow> error + (string option \<times> settings)" where
  "get_price_list fr self billing_territory =
     (case get_name_from_territory fr self billing_territory
             ''price_lists'' ''selling_price_list'' of
        Inl e \<Rightarrow> Inl e
      | Inr (price_list, self') \<Rightarrow> Inr (first_or_none price_list, self'))"

definition get_tax_master ::
  "frappe \<Rightarrow> settings \<Rightarrow> string \<Rightarrow> error + (string option \<times> settings)" where
  "get_tax_master fr self billing_territory =
     (case get_name_from_territory fr self billing_territory
             ''sales_taxes_and_charges_masters'' ''sales_taxes_and_charges_master'' of
        Inl e \<Rightarrow> Inl e
      | Inr (tax_master, self') \<Rightarrow> Inr (first_or_none tax_master, self'))"

definition get_shipping_rules ::
  "frappe \<Rightarrow> settings \<Rightarrow> string \<Rightarrow> error + (string list option \<times> settings)" where
  "get_shipping_rules fr self shipping_territory =
     get_name_from_territory fr self shipping_territory ''shipping_rules'' ''shipping_rule''"

subsection \<open>The validations\<close>

definition validate_price_lists :: "frappe \<Rightarrow> settings \<Rightarrow> error + settings" where
  "validate_price_lists fr self =
     (case validate_overlapping_territories fr self ''price_lists'' ''selling_price_list'' of
        Inl e \<Rightarrow> Inl e
      | Inr territory_name_map \<Rightarrow>
          (case get_name_from_territory fr self (default_territory self)
                  ''price_lists'' ''selling_price_list'' of
             Inl e \<Rightarrow> Inl e
           | Inr (price_list_for_default_territory, self') \<Rightarrow>
               if truthy_list price_list_for_default_territory then Inr self'
               else Inl (CoverageError (default_territory self))))"

definition validate_tax_masters :: "frappe \<Rightarrow> settings \<Rightarrow> error + unit" where
  "validate_tax_masters fr self =
     (case validate_overlapping_territories fr self
             ''sales_taxes_and_charges_masters'' ''sales_taxes_and_charges_master'' of
        Inl e \<Rightarrow> Inl e
      | Inr territory_name_map \<Rightarrow> Inr ())"

fun check_currencies :: "string option dict \<Rightarrow> error + unit" where
  "check_currencies [] = Inr ()"
| "check_currencies ((price_list, currency) # rest) =
     (if truthy_str currency then check_currencies rest
      else Inl (MissingPriceListCurrencyError price_list))"

text \<open>The list comprehension over \<^verbatim>\<open>price_list_currency_map.values()\<close>. A currency
  that is \<^verbatim>\<open>None\<close> never reaches it: the loop before has raised.\<close>

fun expected_pairs :: "string option list \<Rightarrow> string \<Rightarrow> string list" where
  "expected_pairs [] company_currency = []"
| "expected_pairs (None # rest) company_currency = expected_pairs rest company_currency"
| "expected_pairs (Some currency # rest) company_currency =
     (if currency \<noteq> company_currency
      then (currency @ ''-'' @ company_currency) # expected_pairs rest company_currency
      else expected_pairs rest company_currency)"

definition validate_exchange_rates_exist :: "frappe \<Rightarrow> settings \<Rightarrow> error + unit" where
  "validate_exchange_rates_exist fr self =
     (case company_default_currency fr (company self) of
        None \<Rightarrow> Inl (MissingCompanyCurrencyError (company self))
      | Some [] \<Rightarrow> Inl (MissingCompanyCurrencyError (company self))
      | Some (c # cs) \<Rightarrow>
          (let company_currency = c # cs;
               price_list_currency_map = price_list_currency fr (price_lists self)
           in case check_currencies price_list_currency_map of
                Inl e \<Rightarrow> Inl e
              | Inr u \<Rightarrow>
                  (let expected_to_exist =
                         expected_pairs (map snd price_list_currency_map) company_currency
                   in if expected_to_exist \<noteq> [] then
                        (let exists = filter (\<lambda>name. name \<in> set expected_to_exist)
                                        (currency_exchange fr);
                             missing = set expected_to_exist - set exists
                         in if missing \<noteq> {}
                            then Inl (MissingExchangeRatesError missing)
                            else Inr ())
                      else Inr ())))"

definition validate :: "frappe \<Rightarrow> settings \<Rightarrow> error + settings" where
  "validate fr self =
     (if enabled self then
        (case validate_price_lists fr self of
           Inl e \<Rightarrow> Inl e
         | Inr self' \<Rightarrow>
             (case validate_tax_masters fr self' of
                Inl e \<Rightarrow> Inl e
              | Inr u \<Rightarrow>
                  (case validate_exchange_rates_exist fr self' of
                     Inl e \<Rightarrow> Inl e
                   | Inr u' \<Rightarrow> Inr self')))
      else Inr self)"

section \<open>Vocabulary of the statements\<close>

text \<open>The position of a rule reference in the child table: \<^verbatim>\<open>names.index(val)\<close> where
  it is defined.\<close>

definition position :: "string list \<Rightarrow> string \<Rightarrow> nat" where
  "position names val = (case index_py names val of None \<Rightarrow> length names | Some i \<Rightarrow> i)"

text \<open>The rows of the rule table of a category: the (territory, rule reference) pairs the
  query of \<open>get_territory_name_map\<close> returns for the child table.\<close>

definition table_rows ::
  "frappe \<Rightarrow> settings \<Rightarrow> string \<Rightarrow> string \<Rightarrow> (string \<times> string) list" where
  "table_rows fr self parentfield fieldname =
     territory_name fr (link_options fr fieldname parentfield) (get_table self parentfield)"

text \<open>The rule references of the rows of one territory, in row order.\<close>

definition names_of :: "(string \<times> string) list \<Rightarrow> string \<Rightarrow> string list" where
  "names_of rows territory = map snd (filter (\<lambda>r. fst r = territory) rows)"

definition entry_of :: "string list dict \<Rightarrow> string \<Rightarrow> string list" where
  "entry_of m territory = (case map_of m territory of None \<Rightarrow> [] | Some ys \<Rightarrow> ys)"

text \<open>The invariant of the loop of \<open>get_territory_name_map\<close>: keys are distinct, and
  every list is non-empty, holds names of the child table only, and is sorted by position.\<close>

definition map_inv :: "string list \<Rightarrow> string list dict \<Rightarrow> bool" where
  "map_inv names m =
     (distinct (map fst m) \<and>
      list_all (\<lambda>(t, ys). ys \<noteq> [] \<and> set ys \<subseteq> set names \<and> sorted (map (position names) ys)) m)"

text \<open>The cache of ancestor chains holds, for each territory in it, the chain the tree
  returns for it.\<close>

definition cache_ok :: "frappe \<Rightarrow> settings \<Rightarrow> bool" where
  "cache_ok fr self =
     (case territory_ancestry self of
        None \<Rightarrow> True
      | Some cache \<Rightarrow> list_all (\<lambda>(t, chain). chain = get_ancestors_of fr t) cache)"

section \<open>Example configurations\<close>

definition ex_frappe :: frappe where
  "ex_frappe = \<lparr>
     table_options = (\<lambda>parentfield.
        if parentfield = ''price_lists'' then ''Shopping Cart Price List''
        else if parentfield = ''shipping_rules'' then ''Shopping Cart Shipping Rule''
        else ''Shopping Cart Taxes and Charges Master''),
     link_options = (\<lambda>fieldname parentfield.
        if fieldname = ''selling_price_list'' then ''Price List''
        else if fieldname = ''shipping_rule'' then ''Shipping Rule''
        else ''Sales Taxes and Charges Master''),
     applicable_territory =
       [(''Asia'', ''PL-B'', ''Price List''), (''India'', ''PL-India'', ''Price List''),
        (''Asia'', ''PL-A'', ''Price List''),
        (''All Territories'', ''Tax-Default'', ''Sales Taxes and Charges Master''),
        (''Asia'', ''Ship-1'', ''Shipping Rule''), (''Asia'', ''Ship-2'', ''Shipping Rule'')],
     get_ancestors_of = (\<lambda>territory.
        if territory = ''Mumbai'' then [''India'', ''Asia'', ''All Territories'']
        else if territory = ''India'' then [''Asia'', ''All Territories'']
        else if territory = ''Asia'' then [''All Territories''] else []),
     company_default_currency = (\<lambda>company. Some ''USD''),
     price_list_currency = (\<lambda>names.
        map (\<lambda>n. (n, if n = ''PL-A'' then Some ''USD'' else Some ''EUR'')) names),
     currency_exchange = [''GBP-USD''] \<rparr>"

text \<open>A configuration whose price lists do not overlap, and one where \<open>PL-A\<close> and
  \<open>PL-B\<close> are both valid for Asia.\<close>

definition ex_settings :: settings where
  "ex_settings = \<lparr> enabled = True, default_territory = ''All Territories'',
     company = ''ACME'', price_lists = [''PL-A'', ''PL-India''],
     sales_taxes_and_charges_masters = [''Tax-Default''], shipping_rules = [],
     territory_ancestry = None \<rparr>"

definition overlap_settings :: settings where
  "overlap_settings = \<lparr> enabled = True, default_territory = ''Asia'',
     company = ''ACME'', price_lists = [''PL-A'', ''PL-B'', ''PL-India''],
     sales_taxes_and_charges_masters = [], shipping_rules = [],
     territory_ancestry = None \<rparr>"

text \<open>A price list and a tax master whose name is the empty string.\<close>

definition blank_settings :: settings where
  "blank_settings = \<lparr> enabled = True, default_territory = ''Asia'',
     company = ''ACME'', price_lists = [''''],
     sales_taxes_and_charges_masters = [''''], shipping_rules = [],
     territory_ancestry = None \<rparr>"

definition blank_frappe :: frappe where
  "blank_frappe = ex_frappe \<lparr> applicable_territory :=
      [(''Asia'', '''', ''Price List''), (''Asia'', '''', ''Sales Taxes and Charges Master'')] \<rparr>"

section \<open>Sorting by position\<close>

lemma index_py_None_iff: "index_py names v = None \<longleftrightarrow> v \<notin> set names"
  by (induction names) auto

lemma index_py_position: "v \<in> set names \<Longrightarrow> index_py names v = Some (position names v)"
  using index_py_None_iff [of names v] by (auto simp: position_def split: option.splits)

lemma those_index_py:
  "set xs \<subseteq> set names \<Longrightarrow> those (map (index_py names) xs) = Some (map (position names) xs)"
  by (induction xs) (auto simp: index_py_position)

lemma insort_key_decorated:
  "\<forall>p \<in> set ps. fst p = f (snd p) \<Longrightarrow>
   map snd (insort_key fst (f x, x) ps) = insort_key f x (map snd ps)"
  by (induction ps) auto

lemma sort_key_decorated_inv:
  "\<forall>p \<in> set (sort_key fst (zip (map f xs) xs)). fst p = f (snd p)"
  by (auto simp: in_set_zip)

lemma sort_key_decorated:
  "map snd (sort_key fst (zip (map f xs) xs)) = sort_key f xs"
proof (induction xs)
  case Nil
  show ?case by simp
next
  case (Cons x xs)
  have "map snd (insort_key fst (f x, x) (sort_key fst (zip (map f xs) xs)))
        = insort_key f x (map snd (sort_key fst (zip (map f xs) xs)))"
    by (rule insort_key_decorated) (rule sort_key_decorated_inv)
  with Cons show ?case by simp
qed

lemma sort_by_index_ok:
  "set xs \<subseteq> set names \<Longrightarrow> sort_by_index names xs = Inr (sort_key (position names) xs)"
  by (simp add: sort_by_index_def those_index_py sort_key_decorated)

lemma sort_key_insort_key_append:
  "sort_key f (insort_key f x zs @ ys) = insort_key f x (sort_key f (zs @ ys))"
proof (induction zs)
  case Nil
  show ?case by simp
next
  case (Cons z zs)
  show ?case
  proof (cases "f x \<le> f z")
    case True
    then show ?thesis by simp
  next
    case False
    then have "f z \<noteq> f x" by auto
    then show ?thesis
      using False Cons by (simp add: insort_key_left_comm)
  qed
qed

lemma sort_key_sort_key_append:
  "sort_key f (sort_key f xs @ ys) = sort_key f (xs @ ys)"
  by (induction xs) (simp_all add: sort_key_insort_key_append)

lemma sort_key_Nil_iff: "sort_key f xs = [] \<longleftrightarrow> xs = []"
  by (metis length_sort length_0_conv)

lemma sorted_positions:
  assumes "set ns \<subseteq> set names"
  shows "map (index_py names) (sort_key (position names) ns)
           = map Some (map (position names) (sort_key (position names) ns))"
  using assms by (auto simp: index_py_position)

section \<open>The territory map\<close>

text \<open>The loop of \<open>get_territory_name_map\<close> never raises, and keeps for every territory
  the rule references of its rows, sorted stably by position in the child table.\<close>

lemma names_of_Cons:
  "names_of ((t', n) # rows) t = (if t' = t then n # names_of rows t else names_of rows t)"
  by (simp add: names_of_def)

lemma names_of_Nil_iff: "names_of rows t = [] \<longleftrightarrow> t \<notin> fst ` set rows"
  by (auto simp: names_of_def filter_empty_conv)

lemma map_inv_Nil: "map_inv names []"
  by (simp add: map_inv_def)

lemma map_inv_lookup:
  assumes "map_inv names m" "map_of m t = Some ys"
  shows "ys \<noteq> [] \<and> set ys \<subseteq> set names \<and> sort_key (position names) ys = ys"
proof -
  from assms(2) have "(t, ys) \<in> set m" by (rule map_of_SomeD)
  with assms(1) show ?thesis
    by (auto simp: map_inv_def list_all_iff sort_key_id_if_sorted)
qed

lemma entry_of_subset:
  assumes "map_inv names m"
  shows "set (entry_of m t) \<subseteq> set names"
proof (cases "map_of m t")
  case None
  then show ?thesis by (simp add: entry_of_def)
next
  case (Some ys)
  with map_inv_lookup [OF assms Some] show ?thesis by (simp add: entry_of_def)
qed

lemma entry_of_sorted:
  assumes "map_inv names m"
  shows "sort_key (position names) (entry_of m t) = entry_of m t"
proof (cases "map_of m t")
  case None
  then show ?thesis by (simp add: entry_of_def)
next
  case (Some ys)
  with map_inv_lookup [OF assms Some] show ?thesis by (simp add: entry_of_def)
qed

lemma entry_of_update:
  "entry_of (AList.update t v m) t' = (if t' = t then v else entry_of m t')"
  by (simp add: entry_of_def update_conv')

lemma map_of_entry_of:
  assumes "map_inv names m"
  shows "map_of m t = (if entry_of m t = [] then None else Some (entry_of m t))"
proof (cases "map_of m t")
  case None
  then show ?thesis by (simp add: entry_of_def)
next
  case (Some ys)
  with map_inv_lookup [OF assms Some] show ?thesis by (simp add: entry_of_def)
qed

lemma list_all_update:
  "list_all P m \<Longrightarrow> P (k, v) \<Longrightarrow> list_all P (AList.update k v m)"
  by (induction m) auto

lemma append_name_ok:
  assumes "map_inv names m" "n \<in> set names"
  shows "append_name names m t n =
           Inr (AList.update t (sort_key (position names) (entry_of m t @ [n])) m)"
proof -
  have sub: "set (entry_of m t @ [n]) \<subseteq> set names"
    using assms entry_of_subset [of names m t] by simp
  show ?thesis
  proof (cases "length (entry_of m t @ [n]) > 1")
    case True
    then show ?thesis
      using sort_by_index_ok [OF sub]
      by (simp add: append_name_def entry_of_def Let_def)
  next
    case False
    then have "entry_of m t = []" by (cases "entry_of m t") auto
    then show ?thesis
      by (simp add: append_name_def entry_of_def Let_def)
  qed
qed

lemma map_inv_update:
  assumes "map_inv names m" "n \<in> set names"
  shows "map_inv names (AList.update t (sort_key (position names) (entry_of m t @ [n])) m)"
proof -
  have sub: "set (entry_of m t) \<subseteq> set names"
    using assms(1) by (rule entry_of_subset)
  have "sort_key (position names) (entry_of m t @ [n]) \<noteq> []"
    by (metis length_sort length_0_conv snoc_eq_iff_butlast)
  then show ?thesis
    using assms sub by (auto simp: map_inv_def distinct_update intro!: list_all_update)
qed

lemma build_map_ok:
  assumes "map_inv names m" "snd ` set rows \<subseteq> set names"
  shows "\<exists>m'. build_map names rows m = Inr m' \<and> map_inv names m' \<and>
           (\<forall>t. entry_of m' t = sort_key (position names) (entry_of m t @ names_of rows t))"
  using assms
proof (induction rows arbitrary: m)
  case Nil
  then show ?case
    by (simp add: names_of_def entry_of_sorted)
next
  case (Cons r rows)
  obtain t n where r: "r = (t, n)" by (cases r)
  let ?m1 = "AList.update t (sort_key (position names) (entry_of m t @ [n])) m"
  from Cons.prems r have n: "n \<in> set names" by auto
  have step: "append_name names m t n = Inr ?m1"
    using Cons.prems(1) n by (rule append_name_ok)
  have inv1: "map_inv names ?m1"
    using Cons.prems(1) n by (rule map_inv_update)
  from Cons.prems have "snd ` set rows \<subseteq> set names" by auto
  from Cons.IH [OF inv1 this]
  obtain m' where m': "build_map names rows ?m1 = Inr m'" "map_inv names m'"
    "\<forall>t'. entry_of m' t' = sort_key (position names) (entry_of ?m1 t' @ names_of rows t')"
    by blast
  have "entry_of m' t' = sort_key (position names) (entry_of m t' @ names_of (r # rows) t')" for t'
    using m'(3) by (simp add: entry_of_update r names_of_Cons sort_key_sort_key_append)
  with m'(1,2) step show ?case by (simp add: r)
qed

lemma territory_name_snd: "snd ` set (territory_name fr pt names) \<subseteq> set names"
  by (auto simp: territory_name_def)

lemma territory_name_Nil: "territory_name fr pt [] = []"
  by (simp add: territory_name_def)

lemma get_territory_name_map_ok:
  "\<exists>m. get_territory_name_map fr self pf fn = Inr m \<and> map_inv (get_table self pf) m \<and>
     (\<forall>t. entry_of m t =
        sort_key (position (get_table self pf)) (names_of (table_rows fr self pf fn) t))"
proof (cases "get_table self pf = []")
  case True
  then show ?thesis
    by (simp add: get_territory_name_map_def table_rows_def territory_name_Nil map_inv_Nil
        entry_of_def names_of_def)
next
  case False
  from build_map_ok [OF map_inv_Nil territory_name_snd,
      of "get_table self pf" fr "link_options fr fn pf"]
  show ?thesis
    using False by (simp add: get_territory_name_map_def table_rows_def entry_of_def Let_def)
qed

lemma get_territory_name_map_lookup:
  "\<exists>m. get_territory_name_map fr self pf fn = Inr m \<and> distinct (map fst m) \<and>
     (\<forall>t. map_of m t =
        (if names_of (table_rows fr self pf fn) t = [] then None
         else Some (sort_key (position (get_table self pf))
                      (names_of (table_rows fr self pf fn) t))))"
proof -
  from get_territory_name_map_ok [of fr self pf fn]
  obtain m where m: "get_territory_name_map fr self pf fn = Inr m"
    "map_inv (get_table self pf) m"
    "\<forall>t. entry_of m t =
        sort_key (position (get_table self pf)) (names_of (table_rows fr self pf fn) t)"
    by blast
  have "map_of m t =
        (if names_of (table_rows fr self pf fn) t = [] then None
         else Some (sort_key (position (get_table self pf))
                      (names_of (table_rows fr self pf fn) t)))" for t
    using map_of_entry_of [OF m(2), of t] m(3) by (simp add: sort_key_Nil_iff)
  moreover have "distinct (map fst m)" using m(2) by (simp add: map_inv_def)
  ultimately show ?thesis using m(1) by blast
qed

lemma get_territory_name_map_anc:
  "get_territory_name_map (fr\<lparr>get_ancestors_of := anc\<rparr>) self pf fn
     = get_territory_name_map fr self pf fn"
  by (simp add: get_territory_name_map_def territory_name_def Let_def)

lemma get_table_cache:
  "get_table (self\<lparr>territory_ancestry := c\<rparr>) pf = get_table self pf"
  by (simp add: get_table_def)

lemma get_territory_name_map_cache:
  "get_territory_name_map fr (self\<lparr>territory_ancestry := c\<rparr>) pf fn
     = get_territory_name_map fr self pf fn"
  by (simp add: get_territory_name_map_def get_table_cache)

section \<open>The overlap check\<close>

lemma check_names_find:
  "check_names doctype m =
     (case find (\<lambda>(t, ns). 1 < length ns) m of
        None \<Rightarrow> Inr ()
      | Some (t, ns) \<Rightarrow> Inl (OverlapError doctype ns t))"
  by (induction doctype m rule: check_names.induct) simp_all

lemma check_names_not_coverage: "check_names doctype m \<noteq> Inl (CoverageError d)"
  by (induction doctype m rule: check_names.induct) simp_all

lemma distinct_rows_iff:
  "distinct (map fst rows) \<longleftrightarrow> (\<forall>t. length (names_of rows t) \<le> 1)"
proof (induction rows)
  case Nil
  show ?case by (simp add: names_of_def)
next
  case (Cons r rows)
  obtain t0 n where r: "r = (t0, n)" by (cases r)
  have "(\<forall>t. length (names_of (r # rows) t) \<le> 1) \<longleftrightarrow>
        names_of rows t0 = [] \<and> (\<forall>t. length (names_of rows t) \<le> 1)"
  proof
    assume a: "\<forall>t. length (names_of (r # rows) t) \<le> 1"
    from a [rule_format, of t0] have "names_of rows t0 = []"
      by (simp add: r names_of_Cons)
    moreover have "length (names_of rows t) \<le> 1" for t
      using a [rule_format, of t] by (simp add: r names_of_Cons split: if_splits)
    ultimately show "names_of rows t0 = [] \<and> (\<forall>t. length (names_of rows t) \<le> 1)"
      by blast
  next
    assume "names_of rows t0 = [] \<and> (\<forall>t. length (names_of rows t) \<le> 1)"
    then show "\<forall>t. length (names_of (r # rows) t) \<le> 1"
      by (simp add: r names_of_Cons)
  qed
  with Cons show ?case
    by (simp add: r names_of_Nil_iff)
qed

lemma validate_overlapping_territories_cases:
  fixes fr self pf fn
  defines "names \<equiv> get_table self pf" and "rows \<equiv> table_rows fr self pf fn"
  shows "if names = [] then
           validate_overlapping_territories fr self pf fn = Inl (EmptyTableError pf)
         else if distinct (map fst rows) then
           (\<exists>m. get_territory_name_map fr self pf fn = Inr m \<and>
                validate_overlapping_territories fr self pf fn = Inr m)
         else
           (\<exists>t. 1 < length (names_of rows t) \<and>
                validate_overlapping_territories fr self pf fn =
                  Inl (OverlapError (table_options fr pf)
                         (sort_key (position names) (names_of rows t)) t))"
proof (cases "names = []")
  case True
  then show ?thesis
    by (simp add: validate_overlapping_territories_def validate_table_has_rows_def names_def)
next
  case False
  from get_territory_name_map_lookup [of fr self pf fn]
  obtain m where m: "get_territory_name_map fr self pf fn = Inr m" "distinct (map fst m)"
    "\<forall>t. map_of m t =
        (if names_of rows t = [] then None
         else Some (sort_key (position names) (names_of rows t)))"
    unfolding names_def rows_def by blast
  have vot: "validate_overlapping_territories fr self pf fn =
        (case check_names (table_options fr pf) m of Inl e \<Rightarrow> Inl e | Inr u \<Rightarrow> Inr m)"
    using False m(1)
    by (simp add: validate_overlapping_territories_def validate_table_has_rows_def names_def)
  show ?thesis
  proof (cases "find (\<lambda>(t, ns). 1 < length ns) m")
    case None
    have "length (names_of rows t) \<le> 1" for t
    proof (cases "names_of rows t = []")
      case True
      then show ?thesis by simp
    next
      case False
      with m(3) have "map_of m t = Some (sort_key (position names) (names_of rows t))"
        by simp
      then have "(t, sort_key (position names) (names_of rows t)) \<in> set m"
        by (rule map_of_SomeD)
      with None have "\<not> 1 < length (sort_key (position names) (names_of rows t))"
        by (auto simp: find_None_iff simp del: length_sort)
      then show ?thesis by simp
    qed
    then have "distinct (map fst rows)" by (simp add: distinct_rows_iff)
    with False None vot m(1) show ?thesis by (simp add: check_names_find)
  next
    case (Some p)
    obtain t ns where p: "p = (t, ns)" by (cases p)
    from Some p have mem: "(t, ns) \<in> set m" and len: "1 < length ns"
      by (auto simp: find_Some_iff in_set_conv_nth)
    from mem m(2) have "map_of m t = Some ns" by simp
    with m(3) have ns: "ns = sort_key (position names) (names_of rows t)"
      by (simp split: if_splits)
    with len have l: "1 < length (names_of rows t)" by simp
    then have "\<not> distinct (map fst rows)"
      by (auto simp: distinct_rows_iff not_le intro: exI [of _ t])
    with False Some p vot ns l show ?thesis by (auto simp: check_names_find)
  qed
qed

lemma validate_overlapping_territories_not_coverage:
  "validate_overlapping_territories fr self pf fn \<noteq> Inl (CoverageError d)"
proof -
  from get_territory_name_map_ok [of fr self pf fn]
  obtain m where "get_territory_name_map fr self pf fn = Inr m" by blast
  then show ?thesis
    using check_names_not_coverage [of "table_options fr pf" m d]
    by (auto simp: validate_overlapping_territories_def validate_table_has_rows_def
        split: sum.splits)
qed

lemma validate_overlapping_territories_cache:
  "validate_overlapping_territories fr (self\<lparr>territory_ancestry := c\<rparr>) pf fn
     = validate_overlapping_territories fr self pf fn"
  by (simp add: validate_overlapping_territories_def validate_table_has_rows_def
      get_table_cache get_territory_name_map_cache)

section \<open>Resolution through the ancestor chain\<close>

lemma truthy_list_iff: "r \<noteq> Some [] \<Longrightarrow> truthy_list r \<longleftrightarrow> r \<noteq> None"
  by (cases r rule: truthy_list.cases) simp_all

lemma truthy_list_map_inv:
  assumes "map_inv names m"
  shows "truthy_list (map_of m t) \<longleftrightarrow> map_of m t \<noteq> None"
proof (cases "map_of m t")
  case None
  then show ?thesis by simp
next
  case (Some ys)
  with map_inv_lookup [OF assms Some] show ?thesis by (cases ys) auto
qed

lemma ancestor_loop_find:
  assumes "map_inv names m"
  shows "ancestor_loop m chain =
           (case find (\<lambda>a. map_of m a \<noteq> None) chain of
              None \<Rightarrow> None
            | Some a \<Rightarrow> map_of m a)"
  by (induction chain) (simp_all add: truthy_list_map_inv [OF assms])

lemma ancestor_loop_not_empty:
  assumes "map_inv names m"
  shows "ancestor_loop m chain \<noteq> Some []"
proof (induction chain)
  case Nil
  show ?case by simp
next
  case (Cons a chain)
  show ?case
  proof (cases "map_of m a")
    case None
    with Cons show ?thesis by simp
  next
    case (Some ys)
    with map_inv_lookup [OF assms Some] show ?thesis
      by (cases ys) auto
  qed
qed

lemma cache_ok_fresh: "territory_ancestry self = None \<Longrightarrow> cache_ok fr self"
  by (simp add: cache_ok_def)

lemma get_territory_ancestry_chain:
  assumes "cache_ok fr self"
  shows "fst (get_territory_ancestry fr self t) = get_ancestors_of fr t"
proof (cases "territory_ancestry self")
  case None
  then show ?thesis by (simp add: get_territory_ancestry_def Let_def)
next
  case (Some cache)
  with assms have ok: "list_all (\<lambda>(t, chain). chain = get_ancestors_of fr t) cache"
    by (simp add: cache_ok_def)
  show ?thesis
  proof (cases "map_of cache t")
    case None
    with Some show ?thesis by (simp add: get_territory_ancestry_def Let_def)
  next
    case (Some chain)
    then have "(t, chain) \<in> set cache" by (rule map_of_SomeD)
    with ok have "chain = get_ancestors_of fr t" by (auto simp: list_all_iff)
    with Some \<open>territory_ancestry self = Some cache\<close> show ?thesis
      by (simp add: get_territory_ancestry_def Let_def split: list.splits)
  qed
qed

lemma cache_ok_get_territory_ancestry:
  assumes "cache_ok fr self"
  shows "cache_ok fr (snd (get_territory_ancestry fr self t))"
proof -
  let ?cache = "case territory_ancestry self of None \<Rightarrow> [] | Some c \<Rightarrow> c"
  have ok: "list_all (\<lambda>(t, chain). chain = get_ancestors_of fr t) ?cache"
    using assms by (simp add: cache_ok_def split: option.splits)
  then have "list_all (\<lambda>(t, chain). chain = get_ancestors_of fr t)
               (AList.update t (get_ancestors_of fr t) ?cache)"
    by (rule list_all_update) simp
  with ok show ?thesis
    by (simp add: get_territory_ancestry_def cache_ok_def Let_def
        split: option.splits list.splits)
qed

lemma get_territory_ancestry_settings:
  "\<exists>c. snd (get_territory_ancestry fr self t) = self\<lparr>territory_ancestry := c\<rparr>"
proof -
  have "snd (get_territory_ancestry fr self t) =
          self\<lparr>territory_ancestry :=
                 territory_ancestry (snd (get_territory_ancestry fr self t))\<rparr>"
    by (simp add: get_territory_ancestry_def Let_def split: option.splits list.splits)
  then show ?thesis by (rule exI)
qed

lemma get_name_from_territory_eq:
  assumes "get_territory_name_map fr self pf fn = Inr m" "map_inv names m"
  shows "get_name_from_territory fr self t pf fn =
           (case map_of m t of
              Some ns \<Rightarrow> Inr (Some ns, self)
            | None \<Rightarrow>
                Inr (case find (\<lambda>a. map_of m a \<noteq> None) (fst (get_territory_ancestry fr self t)) of
                       None \<Rightarrow> None
                     | Some a \<Rightarrow> map_of m a,
                     snd (get_territory_ancestry fr self t)))"
  using assms(1) truthy_list_map_inv [OF assms(2), of t]
  by (auto simp: get_name_from_territory_def ancestor_loop_find [OF assms(2)]
      split: option.splits prod.splits)

lemma get_name_from_territory_total:
  "\<exists>r self'. get_name_from_territory fr self t pf fn = Inr (r, self') \<and> r \<noteq> Some []"
proof -
  from get_territory_name_map_ok [of fr self pf fn]
  obtain m where m: "get_territory_name_map fr self pf fn = Inr m"
    "map_inv (get_table self pf) m"
    by blast
  show ?thesis
  proof (cases "map_of m t")
    case None
    then show ?thesis
      using m(1) ancestor_loop_not_empty [OF m(2)]
      by (simp add: get_name_from_territory_def split: prod.splits)
  next
    case (Some ns)
    with map_inv_lookup [OF m(2) Some] m(1) truthy_list_map_inv [OF m(2), of t]
    show ?thesis
      by (simp add: get_name_from_territory_def)
  qed
qed

lemma get_name_from_territory_settings:
  assumes "get_name_from_territory fr self t pf fn = Inr (r, self')"
  shows "\<exists>c. self' = self\<lparr>territory_ancestry := c\<rparr>"
proof -
  from get_territory_name_map_ok [of fr self pf fn]
  obtain m where m: "get_territory_name_map fr self pf fn = Inr m"
    "map_inv (get_table self pf) m"
    by blast
  show ?thesis
  proof (cases "map_of m t")
    case None
    with get_name_from_territory_eq [OF m, of t] assms
    have "self' = snd (get_territory_ancestry fr self t)" by simp
    with get_territory_ancestry_settings [of fr self t] show ?thesis by simp
  next
    case (Some ns)
    with get_name_from_territory_eq [OF m, of t] assms have "self' = self" by simp
    then have "self' = self\<lparr>territory_ancestry := territory_ancestry self\<rparr>" by simp
    then show ?thesis by blast
  qed
qed

lemma cache_ok_get_name_from_territory:
  assumes "cache_ok fr self" "get_name_from_territory fr self t pf fn = Inr (r, self')"
  shows "cache_ok fr self'"
proof -
  from get_territory_name_map_ok [of fr self pf fn]
  obtain m where m: "get_territory_name_map fr self pf fn = Inr m"
    "map_inv (get_table self pf) m"
    by blast
  show ?thesis
  proof (cases "map_of m t")
    case None
    with get_name_from_territory_eq [OF m, of t] assms(2)
    have "self' = snd (get_territory_ancestry fr self t)" by simp
    with cache_ok_get_territory_ancestry [OF assms(1), of t] show ?thesis by simp
  next
    case (Some ns)
    with get_name_from_territory_eq [OF m, of t] assms show ?thesis by simp
  qed
qed

lemma truthy_str_Some: "truthy_str (Some x) \<longleftrightarrow> x \<noteq> []"
  by (cases x) simp_all

lemma first_or_none_eq:
  "first_or_none r =
     (case r of None \<Rightarrow> None | Some [] \<Rightarrow> None
      | Some (x # xs) \<Rightarrow> if x = [] then None else Some x)"
  by (cases r rule: first_or_none.cases) (simp_all add: truthy_str_Some)

lemma find_cong_pred: "(\<And>x. x \<in> set xs \<Longrightarrow> P x = Q x) \<Longrightarrow> find P xs = find Q xs"
  by (induction xs) auto

lemma nearest_entry_rows:
  assumes "\<forall>a. map_of m a =
             (if names_of rows a = [] then None
              else Some (sort_key (position names) (names_of rows a)))"
  shows "(case find (\<lambda>a. map_of m a \<noteq> None) chain of
            None \<Rightarrow> None
          | Some a \<Rightarrow> map_of m a) =
         (case find (\<lambda>a. names_of rows a \<noteq> []) chain of
            None \<Rightarrow> None
          | Some a \<Rightarrow> Some (sort_key (position names) (names_of rows a)))"
proof -
  have eq: "find (\<lambda>a. map_of m a \<noteq> None) chain = find (\<lambda>a. names_of rows a \<noteq> []) chain"
    by (rule find_cong_pred) (simp add: assms)
  show ?thesis
  proof (cases "find (\<lambda>a. names_of rows a \<noteq> []) chain")
    case None
    with eq show ?thesis by simp
  next
    case (Some a)
    then have "names_of rows a \<noteq> []" by (auto simp: find_Some_iff)
    with assms have "map_of m a = Some (sort_key (position names) (names_of rows a))"
      by simp
    with eq Some show ?thesis by simp
  qed
qed

section \<open>The currency check\<close>

lemma set_expected_pairs:
  "set (expected_pairs cs cc) = {c @ ''-'' @ cc | c. Some c \<in> set cs \<and> c \<noteq> cc}"
  by (induction cs cc rule: expected_pairs.induct) auto

lemma check_currencies_ok:
  "list_all (\<lambda>(pl, c). truthy_str c) m \<Longrightarrow> check_currencies m = Inr ()"
  by (induction m rule: check_currencies.induct) simp_all

lemma validate_exchange_rates_exist_cache:
  "validate_exchange_rates_exist fr (self\<lparr>territory_ancestry := c\<rparr>)
     = validate_exchange_rates_exist fr self"
  by (simp add: validate_exchange_rates_exist_def cong: option.case_cong list.case_cong)

section \<open>The properties of the specification\<close>

subsection \<open>Resolution\<close>

text \<open>
  C1: a territory that has a row of its own in the rule table is resolved to exactly the
  list the territory map holds for it (the rule references of its rows, in table order),
  whatever the territory tree is: the result is the same for every \<open>get_ancestors_of\<close>,
  and the settings object comes back unchanged, so \<open>get_territory_ancestry\<close> (which
  always leaves the cache attribute set) was not entered.
\<close>

theorem resolve_direct_entry:
  assumes "names_of (table_rows fr self pf fn) t \<noteq> []"
  shows "\<exists>m ns. get_territory_name_map fr self pf fn = Inr m \<and> map_of m t = Some ns \<and>
           ns = sort_key (position (get_table self pf))
                  (names_of (table_rows fr self pf fn) t) \<and>
           (\<forall>anc. get_name_from_territory (fr\<lparr>get_ancestors_of := anc\<rparr>) self t pf fn
                     = Inr (Some ns, self))"
proof -
  from get_territory_name_map_ok [of fr self pf fn]
  obtain m where m: "get_territory_name_map fr self pf fn = Inr m"
    "map_inv (get_table self pf) m"
    "\<forall>t. entry_of m t =
        sort_key (position (get_table self pf)) (names_of (table_rows fr self pf fn) t)"
    by blast
  from m(3) assms have "entry_of m t \<noteq> []" by (simp add: sort_key_Nil_iff)
  then obtain ns where ns: "map_of m t = Some ns"
    by (auto simp: entry_of_def split: option.splits)
  have "get_name_from_territory (fr\<lparr>get_ancestors_of := anc\<rparr>) self t pf fn
          = Inr (Some ns, self)" for anc
    using get_name_from_territory_eq [of "fr\<lparr>get_ancestors_of := anc\<rparr>" self pf fn m _ t]
      m(1,2) ns
    by (simp add: get_territory_name_map_anc)
  moreover from ns m(3)
  have "ns = sort_key (position (get_table self pf)) (names_of (table_rows fr self pf fn) t)"
    by (auto simp: entry_of_def split: option.splits dest: spec [of _ t])
  ultimately show ?thesis using m(1) ns by blast
qed

text \<open>India has a price list of its own; the tree given here has no ancestors at all.\<close>

theorem resolve_direct_entry_witness:
  "names_of (table_rows ex_frappe ex_settings ''price_lists'' ''selling_price_list'')
     ''India'' \<noteq> [] \<and>
   get_name_from_territory (ex_frappe\<lparr>get_ancestors_of := (\<lambda>t. [])\<rparr>) ex_settings
     ''India'' ''price_lists'' ''selling_price_list''
     = Inr (Some [''PL-India''], ex_settings)"
proof -
  have h: "names_of (table_rows ex_frappe ex_settings ''price_lists'' ''selling_price_list'')
             ''India'' \<noteq> []"
    by code_simp
  have m: "get_territory_name_map ex_frappe ex_settings ''price_lists'' ''selling_price_list''
             = Inr [(''India'', [''PL-India'']), (''Asia'', [''PL-A''])]"
    by code_simp
  from resolve_direct_entry [OF h] m
  obtain ns where ns: "map_of [(''India'', [''PL-India'']), (''Asia'', [''PL-A''])] ''India''
                         = Some ns"
    and r: "\<forall>anc. get_name_from_territory (ex_frappe\<lparr>get_ancestors_of := anc\<rparr>) ex_settings
              ''India'' ''price_lists'' ''selling_price_list'' = Inr (Some ns, ex_settings)"
    by auto
  from ns have "ns = [''PL-India'']" by simp
  with r h show ?thesis by simp
qed

text \<open>
  C2: a territory with no row of its own in the rule table is resolved to the rule
  references of the nearest ancestor that has rows in the rule table: \<open>find\<close> returns the
  first territory of the ancestor chain (nearest first) with a row, the result is the
  rule references of that territory's rows in table order, and it is \<open>None\<close> when no
  territory of the chain has a row. The same result read off the territory map: the
  entry of the first territory of the chain that has one. The cache of chains must hold
  what the tree returns, as it does on a fresh object and after every call.
\<close>

theorem resolve_nearest_ancestor:
  assumes "cache_ok fr self" and "names_of (table_rows fr self pf fn) t = []"
  shows "\<exists>m self'. get_territory_name_map fr self pf fn = Inr m \<and> map_of m t = None \<and>
           get_name_from_territory fr self t pf fn =
             Inr (case find (\<lambda>a. map_of m a \<noteq> None) (get_ancestors_of fr t) of
                    None \<Rightarrow> None
                  | Some a \<Rightarrow> map_of m a,
                  self') \<and>
           get_name_from_territory fr self t pf fn =
             Inr (case find (\<lambda>a. names_of (table_rows fr self pf fn) a \<noteq> [])
                         (get_ancestors_of fr t) of
                    None \<Rightarrow> None
                  | Some a \<Rightarrow>
                      Some (sort_key (position (get_table self pf))
                              (names_of (table_rows fr self pf fn) a)),
                  self')"
proof -
  from get_territory_name_map_ok [of fr self pf fn]
  obtain m where m: "get_territory_name_map fr self pf fn = Inr m"
    "map_inv (get_table self pf) m"
    "\<forall>t. entry_of m t =
        sort_key (position (get_table self pf)) (names_of (table_rows fr self pf fn) t)"
    by blast
  have look: "\<forall>a. map_of m a =
        (if names_of (table_rows fr self pf fn) a = [] then None
         else Some (sort_key (position (get_table self pf))
                      (names_of (table_rows fr self pf fn) a)))"
    using map_of_entry_of [OF m(2)] m(3) by (simp add: sort_key_Nil_iff)
  from look assms(2) have none: "map_of m t = None" by simp
  from get_name_from_territory_eq [OF m(1,2), of t] none
    get_territory_ancestry_chain [OF assms(1), of t]
  have r: "get_name_from_territory fr self t pf fn =
          Inr (case find (\<lambda>a. map_of m a \<noteq> None) (get_ancestors_of fr t) of
                 None \<Rightarrow> None
               | Some a \<Rightarrow> map_of m a,
               snd (get_territory_ancestry fr self t))"
    by simp
  then have "get_name_from_territory fr self t pf fn =
          Inr (case find (\<lambda>a. names_of (table_rows fr self pf fn) a \<noteq> [])
                      (get_ancestors_of fr t) of
                 None \<Rightarrow> None
               | Some a \<Rightarrow>
                   Some (sort_key (position (get_table self pf))
                           (names_of (table_rows fr self pf fn) a)),
               snd (get_territory_ancestry fr self t))"
    unfolding nearest_entry_rows [OF look] .
  with r m(1) none show ?thesis by blast
qed

text \<open>Mumbai has no rule of its own. For the price lists India and Asia both have one and
  India is nearer; the tax master comes from the root; no shipping rule is listed.\<close>

theorem resolve_nearest_ancestor_witness:
  "cache_ok ex_frappe ex_settings \<and>
   get_ancestors_of ex_frappe ''Mumbai'' = [''India'', ''Asia'', ''All Territories''] \<and>
   table_rows ex_frappe ex_settings ''price_lists'' ''selling_price_list''
     = [(''India'', ''PL-India''), (''Asia'', ''PL-A'')] \<and>
   (\<exists>self'. get_name_from_territory ex_frappe ex_settings ''Mumbai''
               ''price_lists'' ''selling_price_list'' = Inr (Some [''PL-India''], self')) \<and>
   table_rows ex_frappe ex_settings
       ''sales_taxes_and_charges_masters'' ''sales_taxes_and_charges_master''
     = [(''All Territories'', ''Tax-Default'')] \<and>
   (\<exists>self'. get_name_from_territory ex_frappe ex_settings ''Mumbai''
               ''sales_taxes_and_charges_masters'' ''sales_taxes_and_charges_master''
             = Inr (Some [''Tax-Default''], self')) \<and>
   table_rows ex_frappe ex_settings ''shipping_rules'' ''shipping_rule'' = [] \<and>
   (\<exists>self'. get_name_from_territory ex_frappe ex_settings ''Mumbai''
               ''shipping_rules'' ''shipping_rule'' = Inr (None, self'))"
proof -
  have c: "cache_ok ex_frappe ex_settings"
    by (simp add: cache_ok_def ex_settings_def)
  have a: "get_ancestors_of ex_frappe ''Mumbai'' = [''India'', ''Asia'', ''All Territories'']"
    by (simp add: ex_frappe_def)
  have p: "table_rows ex_frappe ex_settings ''price_lists'' ''selling_price_list''
             = [(''India'', ''PL-India''), (''Asia'', ''PL-A'')]"
    by code_simp
  have x: "table_rows ex_frappe ex_settings
             ''sales_taxes_and_charges_masters'' ''sales_taxes_and_charges_master''
           = [(''All Territories'', ''Tax-Default'')]"
    by code_simp
  have s: "table_rows ex_frappe ex_settings ''shipping_rules'' ''shipping_rule'' = []"
    by code_simp
  have hp: "names_of (table_rows ex_frappe ex_settings ''price_lists'' ''selling_price_list'')
              ''Mumbai'' = []"
    unfolding p by (simp add: names_of_def)
  have hx: "names_of (table_rows ex_frappe ex_settings
              ''sales_taxes_and_charges_masters'' ''sales_taxes_and_charges_master'')
              ''Mumbai'' = []"
    unfolding x by (simp add: names_of_def)
  have hs: "names_of (table_rows ex_frappe ex_settings ''shipping_rules'' ''shipping_rule'')
              ''Mumbai'' = []"
    unfolding s by (simp add: names_of_def)
  from resolve_nearest_ancestor [OF c hp]
  have rp: "\<exists>self'. get_name_from_territory ex_frappe ex_settings ''Mumbai''
               ''price_lists'' ''selling_price_list'' = Inr (Some [''PL-India''], self')"
    unfolding p a by (auto simp: names_of_def)
  from resolve_nearest_ancestor [OF c hx]
  have rx: "\<exists>self'. get_name_from_territory ex_frappe ex_settings ''Mumbai''
               ''sales_taxes_and_charges_masters'' ''sales_taxes_and_charges_master''
             = Inr (Some [''Tax-Default''], self')"
    unfolding x a by (auto simp: names_of_def)
  from resolve_nearest_ancestor [OF c hs]
  have rs: "\<exists>self'. get_name_from_territory ex_frappe ex_settings ''Mumbai''
               ''shipping_rules'' ''shipping_rule'' = Inr (None, self')"
    unfolding s a by (auto simp: names_of_def)
  from c a p rp x rx s rs show ?thesis by blast
qed

subsection \<open>Validation of a rule table\<close>

text \<open>
  C3: \<open>validate_overlapping_territories\<close> fails exactly when the child table is empty or
  two rows of the rule table share a territory. On an empty child table the error is
  the empty-table error; when no two rows share a territory it returns the territory
  map; otherwise the error names the table's doctype, a territory with more than one
  row, and the rule references of that territory in table order.
\<close>

theorem overlap_check:
  "(isl (validate_overlapping_territories fr self pf fn) \<longleftrightarrow>
      get_table self pf = [] \<or> \<not> distinct (map fst (table_rows fr self pf fn))) \<and>
   (if get_table self pf = [] then
      validate_overlapping_territories fr self pf fn = Inl (EmptyTableError pf)
    else if distinct (map fst (table_rows fr self pf fn)) then
      (\<exists>m. get_territory_name_map fr self pf fn = Inr m \<and>
           validate_overlapping_territories fr self pf fn = Inr m)
    else
      (\<exists>t. 1 < length (names_of (table_rows fr self pf fn) t) \<and>
           validate_overlapping_territories fr self pf fn =
             Inl (OverlapError (table_options fr pf)
                    (sort_key (position (get_table self pf))
                       (names_of (table_rows fr self pf fn) t)) t)))"
  using validate_overlapping_territories_cases [of self pf fr fn]
  by (auto split: if_splits)

text \<open>\<open>PL-A\<close> and \<open>PL-B\<close> are both valid for Asia.\<close>

theorem overlap_check_witness:
  "get_table overlap_settings ''price_lists'' \<noteq> [] \<and>
   table_rows ex_frappe overlap_settings ''price_lists'' ''selling_price_list''
     = [(''Asia'', ''PL-B''), (''India'', ''PL-India''), (''Asia'', ''PL-A'')] \<and>
   validate_overlapping_territories ex_frappe overlap_settings
       ''price_lists'' ''selling_price_list''
     = Inl (OverlapError ''Shopping Cart Price List'' [''PL-A'', ''PL-B''] ''Asia'')"
proof -
  have n: "get_table overlap_settings ''price_lists'' = [''PL-A'', ''PL-B'', ''PL-India'']"
    by code_simp
  have r: "table_rows ex_frappe overlap_settings ''price_lists'' ''selling_price_list''
             = [(''Asia'', ''PL-B''), (''India'', ''PL-India''), (''Asia'', ''PL-A'')]"
    by code_simp
  have d: "table_options ex_frappe ''price_lists'' = ''Shopping Cart Price List''"
    by (simp add: ex_frappe_def)
  from overlap_check [of ex_frappe overlap_settings "''price_lists''" "''selling_price_list''"]
  obtain t where t: "1 < length (names_of
        [(''Asia'', ''PL-B''), (''India'', ''PL-India''), (''Asia'', ''PL-A'')] t)"
    and v: "validate_overlapping_territories ex_frappe overlap_settings
               ''price_lists'' ''selling_price_list''
            = Inl (OverlapError ''Shopping Cart Price List''
                     (sort_key (position [''PL-A'', ''PL-B'', ''PL-India''])
                        (names_of [(''Asia'', ''PL-B''), (''India'', ''PL-India''),
                                   (''Asia'', ''PL-A'')] t)) t)"
    unfolding n r d by auto
  from t have "t = ''Asia''"
    by (simp add: names_of_def split: if_splits)
  moreover have "sort_key (position [''PL-A'', ''PL-B'', ''PL-India''])
      (names_of [(''Asia'', ''PL-B''), (''India'', ''PL-India''), (''Asia'', ''PL-A'')] ''Asia'')
      = [''PL-A'', ''PL-B'']"
    by code_simp
  ultimately show ?thesis using v n r by simp
qed

text \<open>
  C4: for every rule table and every territory, the list that \<open>get_territory_name_map\<close>
  holds for the territory is the territory's rule references sorted by their position
  in the child table (\<^verbatim>\<open>names.index\<close>), also when several rule references share the
  territory and the database returned their rows in another order. The map is always
  built: the \<^verbatim>\<open>index\<close> call never raises.
\<close>

theorem territory_name_map_ordered:
  "\<exists>m. get_territory_name_map fr self pf fn = Inr m \<and>
     (\<forall>t ns. map_of m t = Some ns \<longrightarrow>
        ns = sort_key (position (get_table self pf)) (names_of (table_rows fr self pf fn) t) \<and>
        (\<exists>ks. map (index_py (get_table self pf)) ns = map Some ks \<and> sorted ks))"
proof -
  let ?names = "get_table self pf"
  from get_territory_name_map_ok [of fr self pf fn]
  obtain m where m: "get_territory_name_map fr self pf fn = Inr m"
    "map_inv ?names m"
    "\<forall>t. entry_of m t = sort_key (position ?names) (names_of (table_rows fr self pf fn) t)"
    by blast
  have "ns = sort_key (position ?names) (names_of (table_rows fr self pf fn) t) \<and>
        (\<exists>ks. map (index_py ?names) ns = map Some ks \<and> sorted ks)"
    if "map_of m t = Some ns" for t ns
  proof -
    from that have e: "entry_of m t = ns" by (simp add: entry_of_def)
    from map_inv_lookup [OF m(2) that] have sub: "set ns \<subseteq> set ?names"
      and srt: "sort_key (position ?names) ns = ns" by auto
    have "map (index_py ?names) ns = map Some (map (position ?names) ns)"
      using sorted_positions [OF sub] srt by simp
    moreover have "sorted (map (position ?names) ns)"
      using sorted_sort_key [of "position ?names" ns] srt by simp
    ultimately show ?thesis using e m(3) by metis
  qed
  with m(1) show ?thesis by blast
qed

text \<open>The rows of Asia come back as \<open>PL-B\<close>, \<open>PL-A\<close>; the map holds them in table order.\<close>

theorem territory_name_map_ordered_witness:
  "get_territory_name_map ex_frappe overlap_settings ''price_lists'' ''selling_price_list''
     = Inr [(''Asia'', [''PL-A'', ''PL-B'']), (''India'', [''PL-India''])] \<and>
   names_of (table_rows ex_frappe overlap_settings ''price_lists'' ''selling_price_list'')
     ''Asia'' = [''PL-B'', ''PL-A''] \<and>
   (\<exists>ks. map (index_py (get_table overlap_settings ''price_lists'')) [''PL-A'', ''PL-B'']
            = map Some ks \<and> sorted ks)"
proof -
  have m: "get_territory_name_map ex_frappe overlap_settings ''price_lists''
             ''selling_price_list''
           = Inr [(''Asia'', [''PL-A'', ''PL-B'']), (''India'', [''PL-India''])]"
    by code_simp
  have r: "names_of (table_rows ex_frappe overlap_settings ''price_lists''
             ''selling_price_list'') ''Asia'' = [''PL-B'', ''PL-A'']"
    by code_simp
  from territory_name_map_ordered
    [of ex_frappe overlap_settings "''price_lists''" "''selling_price_list''"] m
  have "\<forall>t ns. map_of [(''Asia'', [''PL-A'', ''PL-B'']), (''India'', [''PL-India''])] t
            = Some ns \<longrightarrow>
          (\<exists>ks. map (index_py (get_table overlap_settings ''price_lists'')) ns
                   = map Some ks \<and> sorted ks)"
    by auto
  from this [rule_format, of "''Asia''" "[''PL-A'', ''PL-B'']"]
  have "\<exists>ks. map (index_py (get_table overlap_settings ''price_lists'')) [''PL-A'', ''PL-B'']
            = map Some ks \<and> sorted ks"
    by simp
  with m r show ?thesis by blast
qed

text \<open>
  C5: after the overlap check of the price lists, \<open>validate_price_lists\<close> resolves the
  default territory against the price-list table, and raises the coverage error, which
  names the default territory, exactly when that resolution yields no rule reference.
  The overlap check comes first: when it fails, its error (never a coverage error) is
  raised instead.
\<close>

theorem default_coverage_check:
  "\<exists>r self'.
     get_name_from_territory fr self (default_territory self)
       ''price_lists'' ''selling_price_list'' = Inr (r, self') \<and>
     validate_price_lists fr self =
       (case validate_overlapping_territories fr self ''price_lists'' ''selling_price_list'' of
          Inl e \<Rightarrow> Inl e
        | Inr m \<Rightarrow> if r = None then Inl (CoverageError (default_territory self))
                   else Inr self') \<and>
     (\<forall>d. validate_overlapping_territories fr self ''price_lists'' ''selling_price_list''
            \<noteq> Inl (CoverageError d))"
proof -
  from get_name_from_territory_total
    [of fr self "default_territory self" "''price_lists''" "''selling_price_list''"]
  obtain r self' where r: "get_name_from_territory fr self (default_territory self)
       ''price_lists'' ''selling_price_list'' = Inr (r, self')" "r \<noteq> Some []"
    by blast
  have "validate_price_lists fr self =
       (case validate_overlapping_territories fr self ''price_lists'' ''selling_price_list'' of
          Inl e \<Rightarrow> Inl e
        | Inr m \<Rightarrow> if r = None then Inl (CoverageError (default_territory self))
                   else Inr self')"
    using r by (simp add: validate_price_lists_def truthy_list_iff split: sum.splits)
  with r(1) validate_overlapping_territories_not_coverage show ?thesis by blast
qed

text \<open>No price list is valid for \<open>All Territories\<close>, the default territory.\<close>

theorem default_coverage_check_witness:
  "validate_overlapping_territories ex_frappe ex_settings ''price_lists'' ''selling_price_list''
     = Inr [(''India'', [''PL-India'']), (''Asia'', [''PL-A''])] \<and>
   get_name_from_territory ex_frappe ex_settings ''All Territories''
       ''price_lists'' ''selling_price_list''
     = Inr (None, ex_settings\<lparr>territory_ancestry := Some [(''All Territories'', [])]\<rparr>) \<and>
   validate_price_lists ex_frappe ex_settings = Inl (CoverageError ''All Territories'')"
proof -
  have v: "validate_overlapping_territories ex_frappe ex_settings
             ''price_lists'' ''selling_price_list''
           = Inr [(''India'', [''PL-India'']), (''Asia'', [''PL-A''])]"
    by code_simp
  have d: "default_territory ex_settings = ''All Territories''"
    by (simp add: ex_settings_def)
  have g: "get_name_from_territory ex_frappe ex_settings ''All Territories''
             ''price_lists'' ''selling_price_list''
           = Inr (None, ex_settings\<lparr>territory_ancestry := Some [(''All Territories'', [])]\<rparr>)"
    by code_simp
  from default_coverage_check [of ex_frappe ex_settings] v g
  have "validate_price_lists ex_frappe ex_settings = Inl (CoverageError ''All Territories'')"
    unfolding d by auto
  with v g show ?thesis by simp
qed

text \<open>
  C6: when the company has a currency and every price list has one,
  \<open>validate_exchange_rates_exist\<close> takes the set of the pairs
  \<^verbatim>\<open>currency + "-" + company_currency\<close> over the price-list currencies that differ from
  the company's, and fails with exactly those of them that are not names of
  \<^verbatim>\<open>tabCurrency Exchange\<close>; it succeeds when there is none.
\<close>

theorem currency_coverage:
  assumes "company_default_currency fr (company self) = Some cc" and "cc \<noteq> []"
    and "list_all (\<lambda>(pl, c). truthy_str c) (price_list_currency fr (price_lists self))"
  shows "validate_exchange_rates_exist fr self =
           (let required = {c @ ''-'' @ cc | c.
                  Some c \<in> snd ` set (price_list_currency fr (price_lists self)) \<and> c \<noteq> cc};
                missing = required - set (currency_exchange fr)
            in if missing = {} then Inr () else Inl (MissingExchangeRatesError missing))"
proof -
  let ?m = "price_list_currency fr (price_lists self)"
  let ?e = "expected_pairs (map snd ?m) cc"
  let ?x = "currency_exchange fr"
  obtain c cs where cc: "cc = c # cs" using assms(2) by (cases cc) auto
  have e: "set ?e = {c @ ''-'' @ cc | c. Some c \<in> snd ` set ?m \<and> c \<noteq> cc}"
    by (simp add: set_expected_pairs)
  have diff: "set ?e - set (filter (\<lambda>name. name \<in> set ?e) ?x) = set ?e - set ?x"
    by auto
  have unfolded: "validate_exchange_rates_exist fr self =
          (if ?e \<noteq> [] then
             (if set ?e - set (filter (\<lambda>name. name \<in> set ?e) ?x) \<noteq> {}
              then Inl (MissingExchangeRatesError
                          (set ?e - set (filter (\<lambda>name. name \<in> set ?e) ?x)))
              else Inr ())
           else Inr ())"
    using assms(1) check_currencies_ok [OF assms(3)] unfolding cc
    by (simp add: validate_exchange_rates_exist_def Let_def)
  have "validate_exchange_rates_exist fr self =
          (if set ?e - set ?x = {} then Inr ()
           else Inl (MissingExchangeRatesError (set ?e - set ?x)))"
  proof (cases "?e = []")
    case True
    with unfolded show ?thesis by simp
  next
    case False
    with unfolded show ?thesis unfolding diff by simp
  qed
  then show ?thesis unfolding e by (simp add: Let_def)
qed

text \<open>Company currency USD, price lists in USD, EUR and EUR, no rate for EUR-USD.\<close>

theorem currency_coverage_witness:
  "company_default_currency ex_frappe (company overlap_settings) = Some ''USD'' \<and>
   map snd (price_list_currency ex_frappe (price_lists overlap_settings))
     = [Some ''USD'', Some ''EUR'', Some ''EUR''] \<and>
   currency_exchange ex_frappe = [''GBP-USD''] \<and>
   validate_exchange_rates_exist ex_frappe overlap_settings
     = Inl (MissingExchangeRatesError {''EUR-USD''})"
proof -
  have c: "company_default_currency ex_frappe (company overlap_settings) = Some ''USD''"
    by (simp add: ex_frappe_def)
  have p: "price_list_currency ex_frappe (price_lists overlap_settings)
             = [(''PL-A'', Some ''USD''), (''PL-B'', Some ''EUR''), (''PL-India'', Some ''EUR'')]"
    by (simp add: ex_frappe_def overlap_settings_def)
  have x: "currency_exchange ex_frappe = [''GBP-USD'']"
    by (simp add: ex_frappe_def)
  have a: "list_all (\<lambda>(pl, c). truthy_str c)
             (price_list_currency ex_frappe (price_lists overlap_settings))"
    unfolding p by simp
  have req: "{c @ ''-'' @ ''USD'' | c.
               Some c \<in> snd ` set [(''PL-A'', Some ''USD''), (''PL-B'', Some ''EUR''),
                                     (''PL-India'', Some ''EUR'')] \<and> c \<noteq> ''USD''}
             = {''EUR-USD''}"
    by auto
  from currency_coverage [OF c _ a]
  have "validate_exchange_rates_exist ex_frappe overlap_settings
     = Inl (MissingExchangeRatesError {''EUR-USD''})"
    unfolding p x req by (simp add: Let_def)
  with c p x show ?thesis by simp
qed

subsection \<open>Resolution never fails\<close>

text \<open>
  C8: \<open>get_name_from_territory\<close>, \<open>get_price_list\<close>, \<open>get_tax_master\<close> and
  \<open>get_shipping_rules\<close> return normally for every territory, table and database
  content; no match is the value \<open>None\<close>.
\<close>

theorem resolve_never_raises:
  "(\<exists>r self'. get_name_from_territory fr self t pf fn = Inr (r, self')) \<and>
   (\<exists>r self'. get_price_list fr self t = Inr (r, self')) \<and>
   (\<exists>r self'. get_tax_master fr self t = Inr (r, self')) \<and>
   (\<exists>r self'. get_shipping_rules fr self t = Inr (r, self'))"
proof -
  have "\<exists>r self'. get_name_from_territory fr self t pf fn = Inr (r, self')" for pf fn
    using get_name_from_territory_total [of fr self t pf fn] by blast
  then show ?thesis
    by (auto simp: get_price_list_def get_tax_master_def get_shipping_rules_def
        split: sum.splits) (metis sum.distinct(1))+
qed

subsection \<open>The save-time hook\<close>

text \<open>
  C9: \<open>validate\<close> does nothing and succeeds when the settings are not enabled.
  Otherwise its result is that of the first check that fails, in this order: overlap
  of the price lists, coverage of the default territory, overlap of the tax masters,
  exchange rates; it succeeds when all four pass.
\<close>

theorem validate_order:
  "\<exists>r self'.
     get_name_from_territory fr self (default_territory self)
       ''price_lists'' ''selling_price_list'' = Inr (r, self') \<and>
     validate fr self =
       (if \<not> enabled self then Inr self
        else
          case validate_overlapping_territories fr self ''price_lists'' ''selling_price_list'' of
            Inl e \<Rightarrow> Inl e
          | Inr m \<Rightarrow>
              if r = None then Inl (CoverageError (default_territory self))
              else
                (case validate_overlapping_territories fr self
                        ''sales_taxes_and_charges_masters'' ''sales_taxes_and_charges_master'' of
                   Inl e \<Rightarrow> Inl e
                 | Inr m' \<Rightarrow>
                     (case validate_exchange_rates_exist fr self of
                        Inl e \<Rightarrow> Inl e
                      | Inr u \<Rightarrow> Inr self')))"
proof -
  from get_name_from_territory_total
    [of fr self "default_territory self" "''price_lists''" "''selling_price_list''"]
  obtain r self' where r: "get_name_from_territory fr self (default_territory self)
       ''price_lists'' ''selling_price_list'' = Inr (r, self')" "r \<noteq> Some []"
    by blast
  from get_name_from_territory_settings [OF r(1)]
  obtain c where c: "self' = self\<lparr>territory_ancestry := c\<rparr>" by blast
  have "validate fr self =
       (if \<not> enabled self then Inr self
        else
          case validate_overlapping_territories fr self ''price_lists'' ''selling_price_list'' of
            Inl e \<Rightarrow> Inl e
          | Inr m \<Rightarrow>
              if r = None then Inl (CoverageError (default_territory self))
              else
                (case validate_overlapping_territories fr self
                        ''sales_taxes_and_charges_masters'' ''sales_taxes_and_charges_master'' of
                   Inl e \<Rightarrow> Inl e
                 | Inr m' \<Rightarrow>
                     (case validate_exchange_rates_exist fr self of
                        Inl e \<Rightarrow> Inl e
                      | Inr u \<Rightarrow> Inr self')))"
    using r
    by (simp add: validate_def validate_price_lists_def validate_tax_masters_def
        truthy_list_iff c validate_overlapping_territories_cache
        validate_exchange_rates_exist_cache split: sum.splits)
  with r(1) show ?thesis by blast
qed

text \<open>With overlapping price lists, no tax master and a missing exchange rate, the
  overlap of the price lists is what is reported; disabled, the same settings pass.\<close>

theorem validate_order_witness:
  "validate ex_frappe overlap_settings
     = Inl (OverlapError ''Shopping Cart Price List'' [''PL-A'', ''PL-B''] ''Asia'') \<and>
   validate_overlapping_territories ex_frappe overlap_settings
       ''sales_taxes_and_charges_masters'' ''sales_taxes_and_charges_master''
     = Inl (EmptyTableError ''sales_taxes_and_charges_masters'') \<and>
   validate_exchange_rates_exist ex_frappe overlap_settings
     = Inl (MissingExchangeRatesError {''EUR-USD''}) \<and>
   validate ex_frappe (overlap_settings\<lparr>enabled := False\<rparr>)
     = Inr (overlap_settings\<lparr>enabled := False\<rparr>) \<and>
   validate ex_frappe ex_settings = Inl (CoverageError ''All Territories'')"
proof -
  have p: "validate_overlapping_territories ex_frappe overlap_settings
             ''price_lists'' ''selling_price_list''
           = Inl (OverlapError ''Shopping Cart Price List'' [''PL-A'', ''PL-B''] ''Asia'')"
    by code_simp
  have t: "validate_overlapping_territories ex_frappe overlap_settings
             ''sales_taxes_and_charges_masters'' ''sales_taxes_and_charges_master''
           = Inl (EmptyTableError ''sales_taxes_and_charges_masters'')"
    by code_simp
  have x: "validate_exchange_rates_exist ex_frappe overlap_settings
             = Inl (MissingExchangeRatesError {''EUR-USD''})"
    by (simp add: validate_exchange_rates_exist_def ex_frappe_def overlap_settings_def)
  have e: "enabled overlap_settings" "\<not> enabled (overlap_settings\<lparr>enabled := False\<rparr>)"
    by (simp_all add: overlap_settings_def)
  from validate_order [of ex_frappe overlap_settings] p e(1)
  have v1: "validate ex_frappe overlap_settings
     = Inl (OverlapError ''Shopping Cart Price List'' [''PL-A'', ''PL-B''] ''Asia'')"
    by auto
  from validate_order [of ex_frappe "overlap_settings\<lparr>enabled := False\<rparr>"] e(2)
  have v2: "validate ex_frappe (overlap_settings\<lparr>enabled := False\<rparr>)
     = Inr (overlap_settings\<lparr>enabled := False\<rparr>)"
    by auto
  have q: "validate_overlapping_territories ex_frappe ex_settings
             ''price_lists'' ''selling_price_list''
           = Inr [(''India'', [''PL-India'']), (''Asia'', [''PL-A''])]"
    by code_simp
  have g: "get_name_from_territory ex_frappe ex_settings (default_territory ex_settings)
             ''price_lists'' ''selling_price_list''
           = Inr (None, ex_settings\<lparr>territory_ancestry := Some [(''All Territories'', [])]\<rparr>)"
    by code_simp
  have d: "enabled ex_settings" "default_territory ex_settings = ''All Territories''"
    by (simp_all add: ex_settings_def)
  from validate_order [of ex_frappe ex_settings] q g d
  have v3: "validate ex_frappe ex_settings = Inl (CoverageError ''All Territories'')"
    by auto
  from v1 t x v2 v3 show ?thesis by simp
qed

subsection \<open>The single-valued wrappers\<close>

text \<open>
  C10: \<open>get_price_list\<close> and \<open>get_tax_master\<close> return \<open>None\<close> when the resolution
  yields no match, \<open>None\<close> when the first rule reference of the resolved list is the
  empty string, and the first rule reference otherwise. The resolved list is never
  empty.
\<close>

theorem wrappers_first_rule_ref:
  "(\<exists>r self'. get_name_from_territory fr self t ''price_lists'' ''selling_price_list''
                 = Inr (r, self') \<and> r \<noteq> Some [] \<and>
      get_price_list fr self t =
        Inr (case r of None \<Rightarrow> None | Some [] \<Rightarrow> None
             | Some (x # xs) \<Rightarrow> if x = [] then None else Some x, self')) \<and>
   (\<exists>r self'. get_name_from_territory fr self t
                 ''sales_taxes_and_charges_masters'' ''sales_taxes_and_charges_master''
                 = Inr (r, self') \<and> r \<noteq> Some [] \<and>
      get_tax_master fr self t =
        Inr (case r of None \<Rightarrow> None | Some [] \<Rightarrow> None
             | Some (x # xs) \<Rightarrow> if x = [] then None else Some x, self'))"
proof
  from get_name_from_territory_total
    [of fr self t "''price_lists''" "''selling_price_list''"]
  obtain r self' where "get_name_from_territory fr self t ''price_lists''
      ''selling_price_list'' = Inr (r, self')" "r \<noteq> Some []"
    by blast
  then show "\<exists>r self'. get_name_from_territory fr self t ''price_lists'' ''selling_price_list''
                 = Inr (r, self') \<and> r \<noteq> Some [] \<and>
      get_price_list fr self t =
        Inr (case r of None \<Rightarrow> None | Some [] \<Rightarrow> None
             | Some (x # xs) \<Rightarrow> if x = [] then None else Some x, self')"
    by (simp add: get_price_list_def first_or_none_eq)
next
  from get_name_from_territory_total
    [of fr self t "''sales_taxes_and_charges_masters''" "''sales_taxes_and_charges_master''"]
  obtain r self' where "get_name_from_territory fr self t
      ''sales_taxes_and_charges_masters'' ''sales_taxes_and_charges_master'' = Inr (r, self')"
    "r \<noteq> Some []"
    by blast
  then show "\<exists>r self'. get_name_from_territory fr self t
                 ''sales_taxes_and_charges_masters'' ''sales_taxes_and_charges_master''
                 = Inr (r, self') \<and> r \<noteq> Some [] \<and>
      get_tax_master fr self t =
        Inr (case r of None \<Rightarrow> None | Some [] \<Rightarrow> None
             | Some (x # xs) \<Rightarrow> if x = [] then None else Some x, self')"
    by (simp add: get_tax_master_def first_or_none_eq)
qed

text \<open>A price list whose name is the empty string is resolved, and dropped by the
  wrapper.\<close>

theorem wrappers_first_rule_ref_witness:
  "get_name_from_territory blank_frappe blank_settings ''Asia''
     ''price_lists'' ''selling_price_list'' = Inr (Some [''''], blank_settings) \<and>
   get_price_list blank_frappe blank_settings ''Asia'' = Inr (None, blank_settings) \<and>
   get_price_list ex_frappe ex_settings ''India'' = Inr (Some ''PL-India'', ex_settings)"
proof -
  have r1: "get_name_from_territory blank_frappe blank_settings ''Asia''
     ''price_lists'' ''selling_price_list'' = Inr (Some [''''], blank_settings)"
    by code_simp
  have r2: "get_name_from_territory ex_frappe ex_settings ''India''
     ''price_lists'' ''selling_price_list'' = Inr (Some [''PL-India''], ex_settings)"
    by code_simp
  from wrappers_first_rule_ref [of blank_frappe blank_settings "''Asia''"] r1
  have "get_price_list blank_frappe blank_settings ''Asia'' = Inr (None, blank_settings)"
    by auto
  moreover from wrappers_first_rule_ref [of ex_frappe ex_settings "''India''"] r2
  have "get_price_list ex_frappe ex_settings ''India'' = Inr (Some ''PL-India'', ex_settings)"
    by auto
  ultimately show ?thesis using r1 by simp
qed

end
